theory Spec2Isabelle
  imports Main "HOL-Library.List_Lexorder" "HOL-Library.Char_ord"
begin

section \<open>JavaScript primitives used by the handlers\<close>

text \<open>
  A string is the list of its code units, and the strings modelled are those whose code
  units are below 256. An absent value (\<^verbatim>\<open>undefined\<close>) is \<open>None\<close>. Request values are
  either absent, \<^verbatim>\<open>null\<close> or a string; the other JSON types are outside the modelled
  input type.
\<close>

datatype jsval = JNull | JStr string

text \<open>\<^verbatim>\<open>String.prototype.split(sep)\<close> for a one-character separator: every occurrence
  of the separator cuts, so the result is never empty and may hold empty pieces.\<close>

fun js_split :: "char \<Rightarrow> string \<Rightarrow> string list" where
  "js_split c [] = [[]]"
| "js_split c (x # xs) =
     (if x = c then [] # js_split c xs
      else (case js_split c xs of
              [] \<Rightarrow> [[x]]
            | w # ws \<Rightarrow> (x # w) # ws))"

text \<open>Indexing an array: out of range reads give \<^verbatim>\<open>undefined\<close>.\<close>

fun js_index :: "'a list \<Rightarrow> nat \<Rightarrow> 'a option" where
  "js_index [] n = None"
| "js_index (x # xs) 0 = Some x"
| "js_index (x # xs) (Suc n) = js_index xs n"

text \<open>Truthiness of a value that is \<^verbatim>\<open>undefined\<close> or a string, and of a request value.\<close>

definition truthy_str :: "string option \<Rightarrow> bool" where
  "truthy_str v = (case v of None \<Rightarrow> False | Some s \<Rightarrow> s \<noteq> [])"

definition truthy :: "jsval option \<Rightarrow> bool" where
  "truthy v = (case v of None \<Rightarrow> False | Some JNull \<Rightarrow> False | Some (JStr s) \<Rightarrow> s \<noteq> [])"

text \<open>
  \<^verbatim>\<open>parseInt(x)\<close> with no radix: leading white space is skipped (among the code units
  below 256: space, tab, line feed, vertical tab, form feed, carriage return and the
  no-break space U+00A0), one sign is read, a \<^verbatim>\<open>0x\<close> prefix selects radix 16, then the
  longest run of digits is taken; no digit gives \<^verbatim>\<open>NaN\<close> (\<open>None\<close>). The result is the
  exact integer; JavaScript agrees with it while the magnitude is at most \<open>2 ^ 53\<close> and
  rounds beyond. The general statements below do not depend on numbers of that size:
  those about PATCH and DELETE take the number that \<^verbatim>\<open>parseInt\<close> gave as their input,
  those about GET hold for every page, limit and offset, and \<open>js_parseInt\<close> is otherwise
  applied to short numerals only.
\<close>

definition is_white_space :: "char \<Rightarrow> bool" where
  "is_white_space c =
     (c = CHR '' '' \<or> c = CHR 0x09 \<or> c = CHR 0x0A \<or> c = CHR 0x0B \<or> c = CHR 0x0C \<or> c = CHR 0x0D)"

definition js_white_space :: "char \<Rightarrow> bool" where
  "js_white_space c = (is_white_space c \<or> c = CHR 0xA0)"

definition digit_value :: "nat \<Rightarrow> char \<Rightarrow> nat option" where
  "digit_value radix c =
     (let n = (of_char c :: nat);
          v = (if 48 \<le> n \<and> n \<le> 57 then Some (n - 48)
               else if 97 \<le> n \<and> n \<le> 122 then Some (n - 87)
               else if 65 \<le> n \<and> n \<le> 90 then Some (n - 55)
               else None)
      in case v of None \<Rightarrow> None | Some d \<Rightarrow> if d < radix then Some d else None)"

fun take_digits :: "nat \<Rightarrow> string \<Rightarrow> nat list" where
  "take_digits radix [] = []"
| "take_digits radix (c # cs) =
     (case digit_value radix c of
        None \<Rightarrow> []
      | Some d \<Rightarrow> d # take_digits radix cs)"

definition digits_number :: "nat \<Rightarrow> nat list \<Rightarrow> nat" where
  "digits_number radix ds = foldl (\<lambda>acc d. acc * radix + d) 0 ds"

definition js_parseInt :: "string option \<Rightarrow> int option" where
  "js_parseInt x =
     (case x of
        None \<Rightarrow> None
      | Some s \<Rightarrow>
          (let s1 = dropWhile js_white_space s;
               neg = (s1 \<noteq> [] \<and> hd s1 = CHR ''-'');
               s2 = (if s1 \<noteq> [] \<and> (hd s1 = CHR ''-'' \<or> hd s1 = CHR ''+'') then tl s1 else s1);
               hex = (case s2 of
                        a # b # _ \<Rightarrow> a = CHR ''0'' \<and> (b = CHR ''x'' \<or> b = CHR ''X'')
                      | _ \<Rightarrow> False);
               radix = (if hex then 16 else 10);
               s3 = (if hex then drop 2 s2 else s2);
               ds = take_digits radix s3
           in if ds = [] then None
              else Some ((if neg then - 1 else 1) * int (digits_number radix ds))))"

text \<open>\<^verbatim>\<open>parseInt(x) || d\<close>: \<^verbatim>\<open>NaN\<close> and zero are falsy and give the default.\<close>

definition parse_or :: "string option \<Rightarrow> int \<Rightarrow> int" where
  "parse_or x d = (case js_parseInt x of None \<Rightarrow> d | Some n \<Rightarrow> if n = 0 then d else n)"

section \<open>Responses\<close>

record task =
  task_id :: int
  task_title :: string
  task_description :: "string option"
  task_status :: string
  task_user_id :: int
  task_created_at :: string
  task_updated_at :: string

text \<open>
  The bodies the handlers send; a response is the HTTP status with its body.
  \<^item> \<open>ErrorBody code error message\<close> is \<^verbatim>\<open>{code, error, message}\<close>;
  \<^item> \<open>CreatedBody taskId title description status\<close> is the object of POST, whose
    \<^verbatim>\<open>success\<close> and \<^verbatim>\<open>message\<close> are constants;
  \<^item> \<open>EmptyBody\<close> is what \<^verbatim>\<open>res.json(undefined)\<close> sends;
  \<^item> \<open>MessageBody message\<close> is \<^verbatim>\<open>{message}\<close>.
\<close>

datatype body =
    ErrorBody nat string string
  | CreatedBody "int option" string "string option" string
  | EmptyBody
  | MessageBody string

type_synonym response = "nat \<times> body"

section \<open>Authorization gate (server.js, authenticateToken)\<close>

record identity =
  uid :: int

datatype gate = Rejected response | Next identity

text \<open>The header is split at every single space character and the piece at index 1 is
  the token; \<^verbatim>\<open>authHeader && ...\<close> leaves an absent or empty header as it is.\<close>

definition header_token :: "string option \<Rightarrow> string option" where
  "header_token authHeader =
     (case authHeader of
        None \<Rightarrow> None
      | Some h \<Rightarrow> if h = [] then Some [] else js_index (js_split CHR '' '' h) 1)"

text \<open>\<open>verify\<close> stands for \<^verbatim>\<open>jwt.verify\<close> under the process-wide secret: \<open>None\<close> when
  it reports an error, the decoded payload otherwise.\<close>

definition authenticateToken :: "(string \<Rightarrow> identity option) \<Rightarrow> string option \<Rightarrow> gate" where
  "authenticateToken verify authHeader =
     (let token = header_token authHeader
      in if \<not> truthy_str token then
           Rejected (401, ErrorBody 401 ''Unauthorized'' ''Authentication token is required'')
         else (case verify (the token) of
                 None \<Rightarrow> Rejected (403, ErrorBody 403 ''Forbidden'' ''Invalid or expired token'')
               | Some user \<Rightarrow> Next user))"

section \<open>The data store as the handlers use it\<close>

text \<open>
  The table \<^verbatim>\<open>tasks\<close> is the list of its rows in storage order, with the counter that
  assigns identifiers. A statement is kept as its clauses and bound parameters. The pool
  is the one \<^verbatim>\<open>server.js\<close> creates (lines 6 and 49) with the driver's default options:
  \<^verbatim>\<open>conn.query\<close> resolves to the array of rows for a selection, so that its element 0
  is the first row, and to an object carrying \<^verbatim>\<open>insertId\<close> for an insertion.
\<close>

record store =
  tasks_table :: "task list"
  auto_increment :: nat

datatype db_error = DbError

text \<open>\<^verbatim>\<open>SELECT * FROM tasks WHERE user_id = ? [AND status = ?] [ORDER BY f d] LIMIT ? OFFSET ?\<close>:
  \<open>sel_order\<close> is the column with the flag for \<^verbatim>\<open>DESC\<close>, \<open>None\<close> when the text has no
  \<^verbatim>\<open>ORDER BY\<close>.\<close>

record select_query =
  sel_user :: int
  sel_status :: "string option"
  sel_order :: "(string \<times> bool) option"
  sel_limit :: int
  sel_offset :: int

text \<open>\<^verbatim>\<open>SELECT COUNT(*) as total FROM tasks WHERE user_id = ? [AND status = ?]\<close>\<close>

record count_query =
  cnt_user :: int
  cnt_status :: "string option"

definition column_text :: "string \<Rightarrow> task \<Rightarrow> string" where
  "column_text col t =
     (if col = ''title'' then task_title t
      else if col = ''status'' then task_status t
      else if col = ''created_at'' then task_created_at t
      else if col = ''updated_at'' then task_updated_at t
      else [])"

text \<open>
  With \<^verbatim>\<open>ORDER BY\<close> the rows come back sorted on the column, compared as byte strings
  (the timestamps have the fixed format \<^verbatim>\<open>YYYY-MM-DD HH:MM:SS\<close>, for which this is the
  order in time). Without \<^verbatim>\<open>ORDER BY\<close>, and among rows equal on the column, the store
  is free to choose; the storage order stands for that choice here, and no statement
  below depends on it.
\<close>

definition order_rows :: "(string \<times> bool) option \<Rightarrow> task list \<Rightarrow> task list" where
  "order_rows ord ts =
     (case ord of
        None \<Rightarrow> ts
      | Some (col, descending) \<Rightarrow>
          (if descending then rev (sort_key (column_text col) ts)
           else sort_key (column_text col) ts))"

definition where_rows :: "int \<Rightarrow> string option \<Rightarrow> task list \<Rightarrow> task list" where
  "where_rows u st ts =
     filter (\<lambda>t. task_user_id t = u \<and> (case st of None \<Rightarrow> True | Some s \<Rightarrow> task_status t = s)) ts"

text \<open>The store rejects a negative \<^verbatim>\<open>LIMIT\<close> or \<^verbatim>\<open>OFFSET\<close>.\<close>

definition run_select :: "store \<Rightarrow> select_query \<Rightarrow> db_error + task list" where
  "run_select db q =
     (if sel_limit q < 0 \<or> sel_offset q < 0 then Inl DbError
      else Inr (take (nat (sel_limit q)) (drop (nat (sel_offset q))
                  (order_rows (sel_order q) (where_rows (sel_user q) (sel_status q) (tasks_table db))))))"

text \<open>Element 0 of a count result as the handler is prepared to find it: an array of
  rows, or a row itself. The driver gives the row.\<close>

datatype count_head = RowArray "(string \<times> int) list list" | RowObject "(string \<times> int) list"

definition run_count :: "store \<Rightarrow> count_query \<Rightarrow> count_head option" where
  "run_count db q =
     Some (RowObject [(''total'', int (length (where_rows (cnt_user q) (cnt_status q) (tasks_table db))))])"

text \<open>
  \<^verbatim>\<open>SELECT ... FROM tasks WHERE id = ? AND user_id = ?\<close> and
  \<^verbatim>\<open>SELECT ... FROM tasks WHERE id = ?\<close>. The identifier bound is the number that
  \<^verbatim>\<open>parseInt\<close> gave, \<open>None\<close> when that is no finite number (\<^verbatim>\<open>NaN\<close> for a text
  without leading digits). Such a value is written into the statement as a bare word,
  and the store rejects the statement.
\<close>

definition run_find_owned :: "store \<Rightarrow> int option \<Rightarrow> int \<Rightarrow> db_error + task list" where
  "run_find_owned db taskId u =
     (case taskId of
        None \<Rightarrow> Inl DbError
      | Some n \<Rightarrow> Inr (filter (\<lambda>t. task_id t = n \<and> task_user_id t = u) (tasks_table db)))"

definition run_find :: "store \<Rightarrow> int option \<Rightarrow> db_error + task list" where
  "run_find db taskId =
     (case taskId of
        None \<Rightarrow> Inl DbError
      | Some n \<Rightarrow> Inr (filter (\<lambda>t. task_id t = n) (tasks_table db)))"

text \<open>\<^verbatim>\<open>INSERT INTO tasks (title, description, status, user_id, created_at, updated_at)\<close>:
  the identifier is the next value of the counter, so it is never 0.\<close>

definition run_insert ::
  "store \<Rightarrow> string \<Rightarrow> string option \<Rightarrow> string \<Rightarrow> int \<Rightarrow> string \<Rightarrow> string \<Rightarrow> int \<times> store" where
  "run_insert db ttl descr st u created updated =
     (let new_id = int (Suc (auto_increment db));
          row = \<lparr>task_id = new_id, task_title = ttl, task_description = descr,
                 task_status = st, task_user_id = u,
                 task_created_at = created, task_updated_at = updated\<rparr>
      in (new_id, db\<lparr>tasks_table := tasks_table db @ [row], auto_increment := Suc (auto_increment db)\<rparr>))"

text \<open>\<^verbatim>\<open>UPDATE tasks SET c1 = ?, c2 = ?, ... WHERE id = ?\<close>\<close>

definition assign :: "task \<Rightarrow> string \<times> jsval \<Rightarrow> task" where
  "assign t a =
     (case a of (col, v) \<Rightarrow>
        (if col = ''updated_at'' then (case v of JStr s \<Rightarrow> t\<lparr>task_updated_at := s\<rparr> | JNull \<Rightarrow> t)
         else if col = ''title'' then (case v of JStr s \<Rightarrow> t\<lparr>task_title := s\<rparr> | JNull \<Rightarrow> t)
         else if col = ''description'' then
           (case v of JStr s \<Rightarrow> t\<lparr>task_description := Some s\<rparr>
                    | JNull \<Rightarrow> t\<lparr>task_description := None\<rparr>)
         else if col = ''status'' then (case v of JStr s \<Rightarrow> t\<lparr>task_status := s\<rparr> | JNull \<Rightarrow> t)
         else t))"

definition run_update :: "store \<Rightarrow> (string \<times> jsval) list \<Rightarrow> int option \<Rightarrow> db_error + store" where
  "run_update db updates taskId =
     (case taskId of
        None \<Rightarrow> Inl DbError
      | Some n \<Rightarrow>
          Inr (db\<lparr>tasks_table := map (\<lambda>t. if task_id t = n then foldl assign t updates else t)
                                     (tasks_table db)\<rparr>))"

text \<open>\<^verbatim>\<open>DELETE FROM tasks WHERE id = ?\<close>\<close>

definition run_delete :: "store \<Rightarrow> int option \<Rightarrow> db_error + store" where
  "run_delete db taskId =
     (case taskId of
        None \<Rightarrow> Inl DbError
      | Some n \<Rightarrow> Inr (db\<lparr>tasks_table := filter (\<lambda>t. task_id t \<noteq> n) (tasks_table db)\<rparr>))"

text \<open>The pool counts the connections handed out and not yet given back.\<close>

record pool =
  in_use :: nat

definition getConnection :: "pool \<Rightarrow> pool" where
  "getConnection p = p\<lparr>in_use := Suc (in_use p)\<rparr>"

definition release :: "pool \<Rightarrow> pool" where
  "release p = p\<lparr>in_use := in_use p - 1\<rparr>"

text \<open>
  A call on the store may also be rejected for a reason outside the handler (a lost
  connection, an exhausted pool). The calls of one handler run are numbered from 0 in the
  order the handler makes them, \<^verbatim>\<open>getConnection\<close> first; \<open>fault = Some k\<close> says that call
  \<open>k\<close> is rejected and has no effect, \<open>None\<close> that none is. The first rejection ends the
  run, so one index describes every run.
\<close>

section \<open>Task handlers (routes/tasks.js)\<close>

record list_params =
  q_page :: "string option"
  q_limit :: "string option"
  q_status :: "string option"
  q_sort :: "string option"

record task_body =
  b_title :: "jsval option"
  b_description :: "jsval option"
  b_status :: "jsval option"

definition statuses :: "string list" where
  "statuses = [''pending'', ''in_progress'', ''completed'']"

definition sortable :: "string list" where
  "sortable = [''title'', ''status'', ''created_at'', ''updated_at'']"

definition internal_error :: "string \<Rightarrow> response" where
  "internal_error msg = (500, ErrorBody 500 ''Internal Server Error'' msg)"

definition bad_request :: "string \<Rightarrow> response" where
  "bad_request msg = (400, ErrorBody 400 ''Bad Request'' msg)"

definition not_found :: response where
  "not_found = (404, ErrorBody 404 ''Not Found'' ''Task not found or you do not have permission'')"

subsection \<open>GET /tasks\<close>

text \<open>Lines 7 to 9: the page, the limit and the offset.\<close>

definition list_window :: "list_params \<Rightarrow> int \<times> int \<times> int" where
  "list_window q =
     (let page = parse_or (q_page q) 1;
          limit = parse_or (q_limit q) 10;
          offset = (page - 1) * limit
      in (page, limit, offset))"

text \<open>Lines 18 to 21: the status condition of the row statement.\<close>

definition status_clause :: "string option \<Rightarrow> string option" where
  "status_clause status =
     (if truthy_str status \<and> the status \<in> set statuses then status else None)"

text \<open>Lines 23 to 31: the \<^verbatim>\<open>ORDER BY\<close> of the row statement.\<close>

definition order_clause :: "string option \<Rightarrow> (string \<times> bool) option" where
  "order_clause sortParam =
     (if truthy_str sortParam then
        (let parts = js_split CHR '':'' (the sortParam);
             sortField = js_index parts 0;
             sortOrder = js_index parts 1
         in if truthy_str sortField \<and> the sortField \<in> set sortable
            then Some (the sortField, sortOrder = Some ''desc'')
            else None)
      else Some (''created_at'', True))"

text \<open>Lines 33 to 36: the status condition of the count statement.\<close>

definition count_clause :: "string option \<Rightarrow> string option" where
  "count_clause status = (if truthy_str status then status else None)"

text \<open>Lines 42 to 56: reading the total out of the count result.\<close>

definition unwrap_total :: "count_head option \<Rightarrow> int" where
  "unwrap_total r =
     (case r of
        None \<Rightarrow> 0
      | Some (RowArray rs) \<Rightarrow>
          (case rs of
             [] \<Rightarrow> 0
           | firstRow # _ \<Rightarrow>
               (case map_of firstRow ''total'' of
                  Some n \<Rightarrow> n
                | None \<Rightarrow>
                    (case firstRow of
                       [] \<Rightarrow> 0
                     | (k, v) # _ \<Rightarrow> if k \<noteq> [] then v else 0)))
      | Some (RowObject row) \<Rightarrow>
          (case map_of row ''total'' of Some n \<Rightarrow> n | None \<Rightarrow> 0))"

text \<open>The two statements of the handler with their bound parameters.\<close>

definition row_query :: "identity \<Rightarrow> list_params \<Rightarrow> select_query" where
  "row_query user q =
     (case list_window q of (page, limit, offset) \<Rightarrow>
        \<lparr>sel_user = uid user, sel_status = status_clause (q_status q),
         sel_order = order_clause (q_sort q), sel_limit = limit, sel_offset = offset\<rparr>)"

definition total_query :: "identity \<Rightarrow> list_params \<Rightarrow> count_query" where
  "total_query user q = \<lparr>cnt_user = uid user, cnt_status = count_clause (q_status q)\<rparr>"

text \<open>
  Lines 61 to 65: \<^verbatim>\<open>tasksResult[0]\<close> is the first row, or \<^verbatim>\<open>undefined\<close> when no row was
  selected; the connection is released; neither a row nor \<^verbatim>\<open>undefined\<close> has a method
  \<^verbatim>\<open>map\<close>, so \<^verbatim>\<open>tasks.map\<close> throws and the \<^verbatim>\<open>catch\<close> block answers. The response of
  line 75 is never sent.
\<close>

definition get_tasks ::
  "nat option \<Rightarrow> identity \<Rightarrow> list_params \<Rightarrow> store \<Rightarrow> pool \<Rightarrow> response \<times> store \<times> pool" where
  "get_tasks fault user q db p =
     (case list_window q of (page, limit, offset) \<Rightarrow>
        if fault = Some 0 then (internal_error ''Failed to fetch tasks'', db, p)
        else
          (let conn = getConnection p
           in if fault = Some 1 then (internal_error ''Failed to fetch tasks'', db, conn)
              else
                (let total = unwrap_total (run_count db (total_query user q))
                 in if fault = Some 2 then (internal_error ''Failed to fetch tasks'', db, conn)
                    else
                      (case run_select db (row_query user q) of
                         Inl e \<Rightarrow> (internal_error ''Failed to fetch tasks'', db, conn)
                       | Inr tasksResult \<Rightarrow>
                           (case js_index tasksResult 0 of
                              None \<Rightarrow> (internal_error ''Failed to fetch tasks'', db, release conn)
                            | Some tasks \<Rightarrow>
                                (internal_error ''Failed to fetch tasks'', db, release conn))))))"

subsection \<open>POST /tasks\<close>

definition create_task ::
  "nat option \<Rightarrow> string \<Rightarrow> identity \<Rightarrow> task_body \<Rightarrow> store \<Rightarrow> pool \<Rightarrow> response \<times> store \<times> pool" where
  "create_task fault now user b db p =
     (if \<not> truthy (b_title b) \<or> (case b_title b of Some (JStr s) \<Rightarrow> length s < 1 | _ \<Rightarrow> False) then
        (bad_request ''Title is required and must be at least 1 character long'', db, p)
      else if truthy (b_status b)
              \<and> \<not> (case b_status b of Some (JStr s) \<Rightarrow> s \<in> set statuses | _ \<Rightarrow> False) then
        (bad_request ''Status must be pending, in_progress, or completed'', db, p)
      else if fault = Some 0 then (internal_error ''An unexpected error occurred'', db, p)
      else
        (let conn = getConnection p;
             ttl = (case b_title b of Some (JStr s) \<Rightarrow> s | _ \<Rightarrow> []);
             descr = (case b_description b of Some (JStr s) \<Rightarrow> if s = [] then None else Some s
                                            | _ \<Rightarrow> None);
             st = (case b_status b of Some (JStr s) \<Rightarrow> if s = [] then ''pending'' else s
                                    | _ \<Rightarrow> ''pending'')
         in if fault = Some 1 then (internal_error ''An unexpected error occurred'', db, conn)
            else
              (case run_insert db ttl descr st (uid user) now now of (new_id, db') \<Rightarrow>
                 (let insertId = (if new_id \<noteq> 0 then Some new_id else None)
                  in ((201, CreatedBody insertId ttl descr st), db', release conn)))))"

subsection \<open>PATCH /tasks/:taskId\<close>

text \<open>Lines 159 to 199: the assignments, in the order the handler checks the fields. A
  \<^verbatim>\<open>null\<close> title has no \<^verbatim>\<open>length\<close>: reading it throws.\<close>

datatype patch_stop = TypeError | Invalid string

definition patch_updates :: "string \<Rightarrow> task_body \<Rightarrow> patch_stop + (string \<times> jsval) list" where
  "patch_updates now b =
     (let updates0 = [(''updated_at'', JStr now)]
      in case (case b_title b of
                 None \<Rightarrow> Inr updates0
               | Some JNull \<Rightarrow> Inl TypeError
               | Some (JStr s) \<Rightarrow>
                   if length s < 1 then Inl (Invalid ''Title must be at least 1 character long'')
                   else Inr (updates0 @ [(''title'', JStr s)])) of
           Inl e \<Rightarrow> Inl e
         | Inr updates1 \<Rightarrow>
             (let updates2 = (case b_description b of
                                None \<Rightarrow> updates1
                              | Some v \<Rightarrow> updates1 @ [(''description'', v)])
              in case (case b_status b of
                         None \<Rightarrow> Inr updates2
                       | Some v \<Rightarrow>
                           if \<not> (case v of JStr s \<Rightarrow> s \<in> set statuses | JNull \<Rightarrow> False)
                           then Inl (Invalid ''Invalid status'')
                           else Inr (updates2 @ [(''status'', v)])) of
                   Inl e \<Rightarrow> Inl e
                 | Inr updates3 \<Rightarrow>
                     if length updates3 = 1 then Inl (Invalid ''No fields to update provided'')
                     else Inr updates3))"

text \<open>
  The handler from line 148 on, for the number \<open>taskId\<close> that \<^verbatim>\<open>parseInt\<close> gave at line
  146. \<^verbatim>\<open>taskResult[0]\<close> is the first row or \<^verbatim>\<open>undefined\<close>; a row has no \<^verbatim>\<open>length\<close>, so
  only \<^verbatim>\<open>undefined\<close> gives the 404. At line 208 \<^verbatim>\<open>updatedTaskResult[0]\<close> is the first
  row read back and its element 0 is \<^verbatim>\<open>undefined\<close>: the handler sends
  \<^verbatim>\<open>res.json(undefined)\<close>; with no row read back the index throws before the release.
\<close>

definition update_task ::
  "nat option \<Rightarrow> string \<Rightarrow> identity \<Rightarrow> int option \<Rightarrow> task_body \<Rightarrow> store \<Rightarrow> pool
     \<Rightarrow> response \<times> store \<times> pool" where
  "update_task fault now user taskId b db p =
     (if fault = Some 0 then (internal_error ''Failed to update task'', db, p)
      else
        (let conn = getConnection p
         in if fault = Some 1 then (internal_error ''Failed to update task'', db, conn)
            else
              (case run_find_owned db taskId (uid user) of
                 Inl e \<Rightarrow> (internal_error ''Failed to update task'', db, conn)
               | Inr taskResult \<Rightarrow>
                   (case js_index taskResult 0 of
                      None \<Rightarrow> (not_found, db, release conn)
                    | Some tasks \<Rightarrow>
                        (case patch_updates now b of
                           Inl TypeError \<Rightarrow> (internal_error ''Failed to update task'', db, conn)
                         | Inl (Invalid msg) \<Rightarrow> (bad_request msg, db, release conn)
                         | Inr updates \<Rightarrow>
                             if fault = Some 2 then (internal_error ''Failed to update task'', db, conn)
                             else
                               (case run_update db updates taskId of
                                  Inl e \<Rightarrow> (internal_error ''Failed to update task'', db, conn)
                                | Inr db' \<Rightarrow>
                                    if fault = Some 3
                                    then (internal_error ''Failed to update task'', db', conn)
                                    else
                                      (case run_find db' taskId of
                                         Inl e \<Rightarrow> (internal_error ''Failed to update task'', db', conn)
                                       | Inr updatedTaskResult \<Rightarrow>
                                           (case js_index updatedTaskResult 0 of
                                              None \<Rightarrow>
                                                (internal_error ''Failed to update task'', db', conn)
                                            | Some row \<Rightarrow>
                                                ((200, EmptyBody), db', release conn)))))))))"

text \<open>The whole handler: line 146 reads the number from the path parameter.\<close>

definition patch_request ::
  "nat option \<Rightarrow> string \<Rightarrow> identity \<Rightarrow> string \<Rightarrow> task_body \<Rightarrow> store \<Rightarrow> pool
     \<Rightarrow> response \<times> store \<times> pool" where
  "patch_request fault now user param b db p =
     update_task fault now user (js_parseInt (Some param)) b db p"

subsection \<open>DELETE /tasks/:taskId\<close>

text \<open>The handler from line 238 on, for the number that \<^verbatim>\<open>parseInt\<close> gave at line 236.\<close>

definition delete_task ::
  "nat option \<Rightarrow> identity \<Rightarrow> int option \<Rightarrow> store \<Rightarrow> pool \<Rightarrow> response \<times> store \<times> pool" where
  "delete_task fault user taskId db p =
     (if fault = Some 0 then (internal_error ''Failed to delete task'', db, p)
      else
        (let conn = getConnection p
         in if fault = Some 1 then (internal_error ''Failed to delete task'', db, conn)
            else
              (case run_find_owned db taskId (uid user) of
                 Inl e \<Rightarrow> (internal_error ''Failed to delete task'', db, conn)
               | Inr taskResult \<Rightarrow>
                   (case js_index taskResult 0 of
                      None \<Rightarrow> (not_found, db, release conn)
                    | Some tasks \<Rightarrow>
                        if fault = Some 2 then (internal_error ''Failed to delete task'', db, conn)
                        else
                          (case run_delete db taskId of
                             Inl e \<Rightarrow> (internal_error ''Failed to delete task'', db, conn)
                           | Inr db' \<Rightarrow>
                               ((200, MessageBody ''Task deleted successfully''), db', release conn))))))"

definition delete_request ::
  "nat option \<Rightarrow> identity \<Rightarrow> string \<Rightarrow> store \<Rightarrow> pool \<Rightarrow> response \<times> store \<times> pool" where
  "delete_request fault user param db p =
     delete_task fault user (js_parseInt (Some param)) db p"

subsection \<open>The routes: the gate, then the handler\<close>

definition guarded ::
  "(string \<Rightarrow> identity option) \<Rightarrow> string option
     \<Rightarrow> (identity \<Rightarrow> store \<Rightarrow> pool \<Rightarrow> response \<times> store \<times> pool)
     \<Rightarrow> store \<Rightarrow> pool \<Rightarrow> response \<times> store \<times> pool" where
  "guarded verify authHeader handler db p =
     (case authenticateToken verify authHeader of
        Rejected r \<Rightarrow> (r, db, p)
      | Next user \<Rightarrow> handler user db p)"

definition route_get ::
  "(string \<Rightarrow> identity option) \<Rightarrow> nat option \<Rightarrow> string option \<Rightarrow> list_params
     \<Rightarrow> store \<Rightarrow> pool \<Rightarrow> response \<times> store \<times> pool" where
  "route_get verify fault authHeader q =
     guarded verify authHeader (\<lambda>user. get_tasks fault user q)"

definition route_post ::
  "(string \<Rightarrow> identity option) \<Rightarrow> nat option \<Rightarrow> string \<Rightarrow> string option \<Rightarrow> task_body
     \<Rightarrow> store \<Rightarrow> pool \<Rightarrow> response \<times> store \<times> pool" where
  "route_post verify fault now authHeader b =
     guarded verify authHeader (\<lambda>user. create_task fault now user b)"

definition route_patch ::
  "(string \<Rightarrow> identity option) \<Rightarrow> nat option \<Rightarrow> string \<Rightarrow> string option \<Rightarrow> string \<Rightarrow> task_body
     \<Rightarrow> store \<Rightarrow> pool \<Rightarrow> response \<times> store \<times> pool" where
  "route_patch verify fault now authHeader param b =
     guarded verify authHeader (\<lambda>user. patch_request fault now user param b)"

definition route_delete ::
  "(string \<Rightarrow> identity option) \<Rightarrow> nat option \<Rightarrow> string option \<Rightarrow> string
     \<Rightarrow> store \<Rightarrow> pool \<Rightarrow> response \<times> store \<times> pool" where
  "route_delete verify fault authHeader param =
     guarded verify authHeader (\<lambda>user. delete_request fault user param)"

section \<open>Sample data\<close>

definition task_a :: task where
  "task_a = \<lparr>task_id = 1, task_title = ''alpha'', task_description = None,
              task_status = ''pending'', task_user_id = 1,
              task_created_at = ''2024-01-01 10:00:00'', task_updated_at = ''2024-01-01 10:00:00''\<rparr>"

definition task_b :: task where
  "task_b = \<lparr>task_id = 2, task_title = ''beta'', task_description = Some ''second'',
              task_status = ''completed'', task_user_id = 1,
              task_created_at = ''2024-01-02 10:00:00'', task_updated_at = ''2024-01-02 10:00:00''\<rparr>"

definition task_c :: task where
  "task_c = \<lparr>task_id = 3, task_title = ''gamma'', task_description = None,
              task_status = ''pending'', task_user_id = 2,
              task_created_at = ''2024-01-03 10:00:00'', task_updated_at = ''2024-01-03 10:00:00''\<rparr>"

definition sample_db :: store where
  "sample_db = \<lparr>tasks_table = [task_a, task_b, task_c], auto_increment = 3\<rparr>"

definition user_one :: identity where
  "user_one = \<lparr>uid = 1\<rparr>"

definition idle_pool :: pool where
  "idle_pool = \<lparr>in_use = 0\<rparr>"

definition no_params :: list_params where
  "no_params = \<lparr>q_page = None, q_limit = None, q_status = None, q_sort = None\<rparr>"

definition empty_body :: task_body where
  "empty_body = \<lparr>b_title = None, b_description = None, b_status = None\<rparr>"


section \<open>The spec's reading of the header\<close>

text \<open>
  The spec's words for the extraction are "split on whitespace, take second token". This
  is that reading, kept apart from \<open>header_token\<close>, which is what the gate computes: the
  tokens of a header are its maximal runs of characters that are not white space.
\<close>

fun spec_whitespace_tokens :: "string \<Rightarrow> string list" where
  "spec_whitespace_tokens [] = []"
| "spec_whitespace_tokens (c # cs) =
     (if is_white_space c then spec_whitespace_tokens cs
      else (case cs of
              [] \<Rightarrow> [[c]]
            | d # _ \<Rightarrow>
                if is_white_space d then [c] # spec_whitespace_tokens cs
                else (case spec_whitespace_tokens cs of
                        [] \<Rightarrow> [[c]]
                      | w # ws \<Rightarrow> (c # w) # ws)))"

text \<open>Two verifiers for concrete runs, and a header whose separator is a tab.\<close>

definition reject_all :: "string \<Rightarrow> identity option" where
  "reject_all tok = None"

definition accept_all :: "string \<Rightarrow> identity option" where
  "accept_all tok = Some user_one"

definition tab_header :: string where
  "tab_header = ''Bearer'' @ [CHR 0x09] @ ''abc''"

definition description_only :: task_body where
  "description_only = \<lparr>b_title = None, b_description = Some (JStr ''rewritten''), b_status = None\<rparr>"

definition title_only :: task_body where
  "title_only = \<lparr>b_title = Some (JStr ''X''), b_description = None, b_status = None\<rparr>"

definition blank_status :: task_body where
  "blank_status = \<lparr>b_title = Some (JStr ''X''), b_description = None, b_status = Some (JStr [])\<rparr>"

definition bogus_status :: task_body where
  "bogus_status = \<lparr>b_title = Some (JStr ''X''), b_description = None, b_status = Some (JStr ''bogus'')\<rparr>"

text \<open>Query strings of the listing runs below.\<close>

definition bogus_status_params :: list_params where
  "bogus_status_params = \<lparr>q_page = None, q_limit = None, q_status = Some ''bogus'', q_sort = None\<rparr>"

definition unknown_sort_params :: list_params where
  "unknown_sort_params = \<lparr>q_page = None, q_limit = None, q_status = None, q_sort = Some ''unknownfield:asc''\<rparr>"

definition negative_page_params :: list_params where
  "negative_page_params = \<lparr>q_page = Some ''-5'', q_limit = None, q_status = None, q_sort = None\<rparr>"

definition page_one_params :: list_params where
  "page_one_params = \<lparr>q_page = Some ''1'', q_limit = None, q_status = None, q_sort = None\<rparr>"

section \<open>Basic facts about the store\<close>

lemma set_order_rows: "set (order_rows ord ts) = set ts"
  by (cases ord) (auto simp: order_rows_def)

lemma set_where_rows:
  "set (where_rows u st ts) \<subseteq> {t \<in> set ts. task_user_id t = u}"
  by (auto simp: where_rows_def)

lemma run_select_rows:
  assumes "run_select db q = Inr ts" and "t \<in> set ts"
  shows "t \<in> set (tasks_table db) \<and> task_user_id t = sel_user q"
proof -
  from assms(1) have ts: "ts = take (nat (sel_limit q)) (drop (nat (sel_offset q))
      (order_rows (sel_order q) (where_rows (sel_user q) (sel_status q) (tasks_table db))))"
    by (simp add: run_select_def split: if_splits)
  from assms(2) have "t \<in> set (order_rows (sel_order q)
      (where_rows (sel_user q) (sel_status q) (tasks_table db)))"
    unfolding ts by (meson in_set_dropD in_set_takeD)
  then have "t \<in> set (where_rows (sel_user q) (sel_status q) (tasks_table db))"
    by (simp add: set_order_rows)
  with set_where_rows show ?thesis by blast
qed

lemma sel_user_row_query: "sel_user (row_query user q) = uid user"
  by (simp add: row_query_def split: prod.splits)

lemma get_tasks_response:
  "fst (get_tasks fault user q db p) = internal_error ''Failed to fetch tasks''"
  by (simp add: get_tasks_def Let_def split: prod.splits sum.splits option.splits)

section \<open>Listing is scoped to the requester\<close>

text \<open>
  C1. For every identity and every combination of page, limit, status and sort, the
  owner bound in the row statement and in the count statement of GET /tasks is the
  identity's user id, whatever the caller supplies; every row that a row statement with
  that owner selects, on every store and for every status condition, ordering, limit and
  offset, is a row of the table whose owner is that user id; and the response holds no
  task at all, of this or another user: the handler answers every request with the body
  of its \<^verbatim>\<open>catch\<close> block.
\<close>

theorem listing_only_own_tasks:
  "sel_user (row_query user q) = uid user \<and>
   cnt_user (total_query user q) = uid user \<and>
   (\<forall>stmt ts. sel_user stmt = uid user \<and> run_select db stmt = Inr ts \<longrightarrow>
      (\<forall>t \<in> set ts. t \<in> set (tasks_table db) \<and> task_user_id t = uid user)) \<and>
   fst (get_tasks fault user q db p)
     = (500, ErrorBody 500 ''Internal Server Error'' ''Failed to fetch tasks'')"
proof (intro conjI allI impI ballI)
  show "sel_user (row_query user q) = uid user" by (rule sel_user_row_query)
  show "cnt_user (total_query user q) = uid user" by (simp add: total_query_def)
  show "fst (get_tasks fault user q db p)
     = (500, ErrorBody 500 ''Internal Server Error'' ''Failed to fetch tasks'')"
    by (simp add: get_tasks_response internal_error_def)
next
  fix stmt ts t
  assume a: "sel_user stmt = uid user \<and> run_select db stmt = Inr ts" and t: "t \<in> set ts"
  then have sel: "run_select db stmt = Inr ts" by simp
  from run_select_rows [OF sel t] a show "t \<in> set (tasks_table db)"
    and "task_user_id t = uid user"
    by simp_all
qed

theorem listing_only_own_tasks_witness:
  "run_select sample_db (row_query user_one no_params) = Inr [task_b, task_a]
   \<and> task_user_id task_b = uid user_one \<and> task_user_id task_a = uid user_one
   \<and> task_b \<in> set (tasks_table sample_db) \<and> task_a \<in> set (tasks_table sample_db)
   \<and> task_c \<in> set (tasks_table sample_db) \<and> task_user_id task_c \<noteq> uid user_one
   \<and> fst (get_tasks None user_one no_params sample_db idle_pool)
     = (500, ErrorBody 500 ''Internal Server Error'' ''Failed to fetch tasks'')"
proof -
  have sel: "run_select sample_db (row_query user_one no_params) = Inr [task_b, task_a]"
    by code_simp
  have c: "task_c \<in> set (tasks_table sample_db) \<and> task_user_id task_c \<noteq> uid user_one"
    by (simp add: sample_db_def task_c_def user_one_def)
  from listing_only_own_tasks [of user_one no_params sample_db None idle_pool] sel
    sel_user_row_query [of user_one no_params]
  have "(\<forall>t \<in> set [task_b, task_a]. t \<in> set (tasks_table sample_db) \<and> task_user_id t = uid user_one)
    \<and> fst (get_tasks None user_one no_params sample_db idle_pool)
     = (500, ErrorBody 500 ''Internal Server Error'' ''Failed to fetch tasks'')"
    by blast
  with sel c show ?thesis by simp
qed

section \<open>Ownership-opaque 404\<close>









section \<open>The authorization gate\<close>

lemma header_token_None: "header_token None = None"
  by (simp add: header_token_def)

lemma header_token_pieces:
  "truthy_str (header_token (Some a)) = truthy_str (js_index (js_split CHR '' '' a) 1)"
  "truthy_str (header_token (Some a)) \<Longrightarrow> header_token (Some a) = js_index (js_split CHR '' '' a) 1"
  by (cases "a = []"; simp add: header_token_def truthy_str_def)+

lemma gate_falsy:
  "\<not> truthy_str (header_token h) \<Longrightarrow>
   authenticateToken verify h
     = Rejected (401, ErrorBody 401 ''Unauthorized'' ''Authentication token is required'')"
  by (simp add: authenticateToken_def)

lemma gate_truthy:
  "header_token h = Some tok \<Longrightarrow> tok \<noteq> [] \<Longrightarrow>
   authenticateToken verify h =
     (case verify tok of
        None \<Rightarrow> Rejected (403, ErrorBody 403 ''Forbidden'' ''Invalid or expired token'')
      | Some user \<Rightarrow> Next user)"
  by (simp add: authenticateToken_def truthy_str_def)

text \<open>
  C3, as amended. The gate cuts the header at every single space character (U+0020) and
  reads the piece at index 1. If the header is absent, or has no such piece, or the
  piece is empty, the gate responds 401 with message "Authentication token is required".
  If the piece is non-empty and verification fails, the gate responds 403 with message
  "Invalid or expired token". If verification succeeds, the decoded identity is passed on
  and the handler runs with it.
\<close>

theorem gate_outcomes:
  "((h = None \<or> (\<exists>a. h = Some a \<and> (js_index (js_split CHR '' '' a) 1 = None
                                   \<or> js_index (js_split CHR '' '' a) 1 = Some []))) \<longrightarrow>
      authenticateToken verify h
        = Rejected (401, ErrorBody 401 ''Unauthorized'' ''Authentication token is required''))
   \<and> (\<forall>a tok. h = Some a \<and> js_index (js_split CHR '' '' a) 1 = Some tok \<and> tok \<noteq> []
                \<and> verify tok = None \<longrightarrow>
        authenticateToken verify h
          = Rejected (403, ErrorBody 403 ''Forbidden'' ''Invalid or expired token''))
   \<and> (\<forall>a tok user. h = Some a \<and> js_index (js_split CHR '' '' a) 1 = Some tok \<and> tok \<noteq> []
                \<and> verify tok = Some user \<longrightarrow>
        authenticateToken verify h = Next user
        \<and> guarded verify h handler db p = handler user db p)"
proof (intro conjI allI impI)
  assume "h = None \<or> (\<exists>a. h = Some a \<and> (js_index (js_split CHR '' '' a) 1 = None
                                   \<or> js_index (js_split CHR '' '' a) 1 = Some []))"
  then have "\<not> truthy_str (header_token h)"
  proof
    assume "h = None"
    then show ?thesis by (simp add: header_token_None truthy_str_def)
  next
    assume "\<exists>a. h = Some a \<and> (js_index (js_split CHR '' '' a) 1 = None
                                   \<or> js_index (js_split CHR '' '' a) 1 = Some [])"
    then obtain a where "h = Some a"
      and "js_index (js_split CHR '' '' a) 1 = None \<or> js_index (js_split CHR '' '' a) 1 = Some []"
      by blast
    then have "\<not> truthy_str (js_index (js_split CHR '' '' a) 1)"
      by (auto simp: truthy_str_def)
    with \<open>h = Some a\<close> header_token_pieces(1) [of a] show ?thesis
      by blast
  qed
  then show "authenticateToken verify h
        = Rejected (401, ErrorBody 401 ''Unauthorized'' ''Authentication token is required'')"
    by (rule gate_falsy)
next
  fix a tok
  assume h: "h = Some a \<and> js_index (js_split CHR '' '' a) 1 = Some tok \<and> tok \<noteq> []
                \<and> verify tok = None"
  then have "truthy_str (js_index (js_split CHR '' '' a) 1)"
    by (simp add: truthy_str_def)
  with header_token_pieces(1) [of a] have "truthy_str (header_token (Some a))"
    by blast
  from header_token_pieces(2) [OF this] h have "header_token h = Some tok" by simp
  from gate_truthy [OF this] h show "authenticateToken verify h
          = Rejected (403, ErrorBody 403 ''Forbidden'' ''Invalid or expired token'')"
    by simp
next
  fix a tok user
  assume h: "h = Some a \<and> js_index (js_split CHR '' '' a) 1 = Some tok \<and> tok \<noteq> []
                \<and> verify tok = Some user"
  then have "truthy_str (js_index (js_split CHR '' '' a) 1)"
    by (simp add: truthy_str_def)
  with header_token_pieces(1) [of a] have "truthy_str (header_token (Some a))"
    by blast
  from header_token_pieces(2) [OF this] h have "header_token h = Some tok" by simp
  from gate_truthy [OF this] h show n: "authenticateToken verify h = Next user"
    by simp
  show "guarded verify h handler db p = handler user db p"
    by (simp add: guarded_def n)
qed

theorem gate_outcomes_witness:
  "authenticateToken reject_all None
     = Rejected (401, ErrorBody 401 ''Unauthorized'' ''Authentication token is required'')
   \<and> js_index (js_split CHR '' '' ''Bearer abc'') 1 = Some ''abc''
   \<and> authenticateToken reject_all (Some ''Bearer abc'')
     = Rejected (403, ErrorBody 403 ''Forbidden'' ''Invalid or expired token'')
   \<and> authenticateToken accept_all (Some ''Bearer abc'') = Next user_one
   \<and> route_get accept_all None (Some ''Bearer abc'') no_params sample_db idle_pool
     = get_tasks None user_one no_params sample_db idle_pool"
proof -
  have tok: "js_index (js_split CHR '' '' ''Bearer abc'') 1 = Some ''abc''" by code_simp
  have ne: "''abc'' \<noteq> []" by simp
  have r: "reject_all ''abc'' = None" by (simp add: reject_all_def)
  have a: "accept_all ''abc'' = Some user_one" by (simp add: accept_all_def)
  from gate_outcomes [of None reject_all]
  have c1: "authenticateToken reject_all None
     = Rejected (401, ErrorBody 401 ''Unauthorized'' ''Authentication token is required'')"
    by blast
  from gate_outcomes [of "Some ''Bearer abc''" reject_all] tok r ne
  have c2: "authenticateToken reject_all (Some ''Bearer abc'')
     = Rejected (403, ErrorBody 403 ''Forbidden'' ''Invalid or expired token'')"
    by blast
  from gate_outcomes [of "Some ''Bearer abc''" accept_all
      "\<lambda>user. get_tasks None user no_params" sample_db idle_pool] tok a ne
  have c3: "authenticateToken accept_all (Some ''Bearer abc'') = Next user_one
     \<and> guarded accept_all (Some ''Bearer abc'') (\<lambda>user. get_tasks None user no_params) sample_db idle_pool
       = get_tasks None user_one no_params sample_db idle_pool"
    by blast
  from c3 have c4: "route_get accept_all None (Some ''Bearer abc'') no_params sample_db idle_pool
     = get_tasks None user_one no_params sample_db idle_pool"
    by (simp only: route_get_def)
  from c1 c2 c3 c4 tok show ?thesis by blast
qed


text \<open>
  C3 as stated speaks of splitting on whitespace. A header whose scheme word and token
  are separated by a tab has the second whitespace-separated token \<open>abc\<close>; with a
  verifier that rejects it the claim asks for 403, and the gate answers 401, because the
  header holds no space character.
\<close>

theorem gate_tab_header_counterexample:
  "spec_whitespace_tokens tab_header = [''Bearer'', ''abc'']
   \<and> reject_all ''abc'' = None
   \<and> authenticateToken reject_all (Some tab_header)
       = Rejected (401, ErrorBody 401 ''Unauthorized'' ''Authentication token is required'')
   \<and> authenticateToken reject_all (Some tab_header)
       \<noteq> Rejected (403, ErrorBody 403 ''Forbidden'' ''Invalid or expired token'')"
  by code_simp

text \<open>
  C10, as amended. The gate never looks at the scheme word: for every two headers whose
  pieces at index 1, after cutting at every single space character, are equal (or both
  missing), the outcome is the same; so "Basic t" and "Bearer t" give identical outcomes
  for every t. An absent header, the bare word "Bearer", and every header whose piece at
  index 1 is missing or empty give the 401 response.
\<close>

theorem gate_ignores_scheme:
  "(js_index (js_split CHR '' '' a) 1 = js_index (js_split CHR '' '' a') 1 \<longrightarrow>
      authenticateToken verify (Some a) = authenticateToken verify (Some a'))
   \<and> authenticateToken verify (Some (''Basic '' @ t)) = authenticateToken verify (Some (''Bearer '' @ t))
   \<and> authenticateToken verify None
       = Rejected (401, ErrorBody 401 ''Unauthorized'' ''Authentication token is required'')
   \<and> authenticateToken verify (Some ''Bearer'')
       = Rejected (401, ErrorBody 401 ''Unauthorized'' ''Authentication token is required'')
   \<and> (js_index (js_split CHR '' '' a) 1 = None \<or> js_index (js_split CHR '' '' a) 1 = Some [] \<longrightarrow>
        authenticateToken verify (Some a)
          = Rejected (401, ErrorBody 401 ''Unauthorized'' ''Authentication token is required''))"
proof -
  have dep: "authenticateToken verify (Some x) = authenticateToken verify (Some y)"
    if eq: "js_index (js_split CHR '' '' x) 1 = js_index (js_split CHR '' '' y) 1" for x y
  proof (cases "truthy_str (js_index (js_split CHR '' '' x) 1)")
    case True
    with header_token_pieces [of x] have x: "header_token (Some x) = js_index (js_split CHR '' '' x) 1"
      by blast
    from True eq header_token_pieces [of y]
    have y: "header_token (Some y) = js_index (js_split CHR '' '' y) 1"
      by simp
    from x y eq have "header_token (Some x) = header_token (Some y)" by simp
    then show ?thesis by (simp add: authenticateToken_def)
  next
    case False
    with header_token_pieces(1) [of x] have fx: "\<not> truthy_str (header_token (Some x))" by blast
    from False eq header_token_pieces(1) [of y] have fy: "\<not> truthy_str (header_token (Some y))"
      by simp
    from gate_falsy [OF fx] gate_falsy [OF fy] show ?thesis by simp
  qed
  have same: "js_index (js_split CHR '' '' (''Basic '' @ t)) 1
      = js_index (js_split CHR '' '' (''Bearer '' @ t)) 1"
    by simp
  have none: "authenticateToken verify None
       = Rejected (401, ErrorBody 401 ''Unauthorized'' ''Authentication token is required'')"
    by (rule gate_falsy) (simp add: header_token_None truthy_str_def)
  have bare: "authenticateToken verify (Some ''Bearer'')
       = Rejected (401, ErrorBody 401 ''Unauthorized'' ''Authentication token is required'')"
    by (rule gate_falsy) (simp add: header_token_def truthy_str_def)
  have falsy: "authenticateToken verify (Some a)
          = Rejected (401, ErrorBody 401 ''Unauthorized'' ''Authentication token is required'')"
    if "js_index (js_split CHR '' '' a) 1 = None \<or> js_index (js_split CHR '' '' a) 1 = Some []"
  proof -
    from that have "\<not> truthy_str (js_index (js_split CHR '' '' a) 1)"
      by (auto simp: truthy_str_def)
    with header_token_pieces(1) [of a] have "\<not> truthy_str (header_token (Some a))" by blast
    then show ?thesis by (rule gate_falsy)
  qed
  from dep [of a a'] dep [OF same] none bare falsy show ?thesis by blast
qed

theorem gate_ignores_scheme_witness:
  "js_index (js_split CHR '' '' ''Token abc'') 1 = js_index (js_split CHR '' '' ''Bearer abc xyz'') 1
   \<and> authenticateToken accept_all (Some ''Token abc'') = authenticateToken accept_all (Some ''Bearer abc xyz'')
   \<and> authenticateToken accept_all (Some ''Basic abc'') = authenticateToken accept_all (Some ''Bearer abc'')
   \<and> js_index (js_split CHR '' '' ''Bearer '') 1 = Some []
   \<and> authenticateToken accept_all (Some ''Bearer '')
       = Rejected (401, ErrorBody 401 ''Unauthorized'' ''Authentication token is required'')"
proof -
  have e: "js_index (js_split CHR '' '' ''Token abc'') 1
      = js_index (js_split CHR '' '' ''Bearer abc xyz'') 1" by code_simp
  have f: "js_index (js_split CHR '' '' ''Bearer '') 1 = Some []" by code_simp
  from gate_ignores_scheme [of "''Token abc''" "''Bearer abc xyz''" accept_all "''abc''"] e
  have c1: "authenticateToken accept_all (Some ''Token abc'') = authenticateToken accept_all (Some ''Bearer abc xyz'')
    \<and> authenticateToken accept_all (Some (''Basic '' @ ''abc'')) = authenticateToken accept_all (Some (''Bearer '' @ ''abc''))"
    by blast
  from gate_ignores_scheme [of "''Bearer ''" "''Bearer ''" accept_all "''abc''"] f
  have c2: "authenticateToken accept_all (Some ''Bearer '')
       = Rejected (401, ErrorBody 401 ''Unauthorized'' ''Authentication token is required'')"
    by blast
  from c1 have c3: "authenticateToken accept_all (Some ''Basic abc'') = authenticateToken accept_all (Some ''Bearer abc'')"
    by simp
  from e f c1 c2 c3 show ?thesis by blast
qed

text \<open>
  C10 as stated quantifies over headers of at least two whitespace-separated tokens.
  Three headers with the same two such tokens, separated by one space, by a tab and by
  two spaces: the gate accepts the first and answers 401 to the other two, so its
  outcome is not a function of the second whitespace-separated token.
\<close>

theorem gate_whitespace_counterexample:
  "spec_whitespace_tokens ''Bearer abc'' = [''Bearer'', ''abc'']
   \<and> spec_whitespace_tokens tab_header = [''Bearer'', ''abc'']
   \<and> spec_whitespace_tokens ''Bearer  abc'' = [''Bearer'', ''abc'']
   \<and> authenticateToken accept_all (Some ''Bearer abc'') = Next user_one
   \<and> authenticateToken accept_all (Some tab_header)
       = Rejected (401, ErrorBody 401 ''Unauthorized'' ''Authentication token is required'')
   \<and> authenticateToken accept_all (Some ''Bearer  abc'')
       = Rejected (401, ErrorBody 401 ''Unauthorized'' ''Authentication token is required'')"
  by code_simp

section \<open>Partial update\<close>

lemma patch_updates_Inr:
  assumes "patch_updates now b = Inr us"
  shows "us = [(''updated_at'', JStr now)]
            @ (case b_title b of Some (JStr s) \<Rightarrow> [(''title'', JStr s)] | _ \<Rightarrow> [])
            @ (case b_description b of None \<Rightarrow> [] | Some v \<Rightarrow> [(''description'', v)])
            @ (case b_status b of Some (JStr s) \<Rightarrow> [(''status'', JStr s)] | _ \<Rightarrow> [])"
  using assms
  by (auto simp: patch_updates_def Let_def split: option.splits jsval.splits if_splits sum.splits)

lemma foldl_assign_patch:
  "foldl assign t
     ([(''updated_at'', JStr now)]
      @ (case ti of Some (JStr s) \<Rightarrow> [(''title'', JStr s)] | _ \<Rightarrow> [])
      @ (case de of None \<Rightarrow> [] | Some v \<Rightarrow> [(''description'', v)])
      @ (case st of Some (JStr s) \<Rightarrow> [(''status'', JStr s)] | _ \<Rightarrow> []))
   = t\<lparr>task_title := (case ti of Some (JStr s) \<Rightarrow> s | _ \<Rightarrow> task_title t),
       task_description := (case de of None \<Rightarrow> task_description t
                                     | Some JNull \<Rightarrow> None
                                     | Some (JStr s) \<Rightarrow> Some s),
       task_status := (case st of Some (JStr s) \<Rightarrow> s | _ \<Rightarrow> task_status t),
       task_updated_at := now\<rparr>"
  by (simp add: assign_def split: option.splits jsval.splits)

lemma patch_updates_empty:
  "b_title b = None \<Longrightarrow> b_description b = None \<Longrightarrow> b_status b = None \<Longrightarrow>
   patch_updates now b = Inl (Invalid ''No fields to update provided'')"
  by (simp add: patch_updates_def)

lemma patch_updates_valid:
  assumes "b_title b \<noteq> Some JNull" and "b_title b \<noteq> Some (JStr [])"
    and "\<forall>v. b_status b = Some v \<longrightarrow> (\<exists>s. v = JStr s \<and> s \<in> set statuses)"
    and "b_title b \<noteq> None \<or> b_description b \<noteq> None \<or> b_status b \<noteq> None"
  shows "\<exists>us. patch_updates now b = Inr us"
  using assms
  by (auto simp: patch_updates_def Let_def split: option.splits jsval.splits)

lemma task_id_assign: "task_id (assign t a) = task_id t"
  by (cases a) (simp add: assign_def split: jsval.splits)

lemma task_id_foldl_assign: "task_id (foldl assign t us) = task_id t"
  by (induction us arbitrary: t) (simp_all add: task_id_assign)

lemma js_index_filter_0:
  "\<exists>t \<in> set ts. P t \<Longrightarrow> \<exists>r. js_index (filter P ts) 0 = Some r"
  by (cases "filter P ts") (auto simp: filter_empty_conv)

lemma find_owned_first:
  "\<exists>t \<in> set (tasks_table db). task_id t = n \<and> task_user_id t = u
   \<Longrightarrow> \<exists>ts r. run_find_owned db (Some n) u = Inr ts \<and> js_index ts 0 = Some r"
  using js_index_filter_0 [of "tasks_table db" "\<lambda>t. task_id t = n \<and> task_user_id t = u"]
  by (simp add: run_find_owned_def)

lemma read_back_first:
  assumes "\<exists>t \<in> set (tasks_table db). task_id t = n"
  shows "\<exists>ts r. run_find (db\<lparr>tasks_table := map (\<lambda>t. if task_id t = n then foldl assign t us else t)
                                               (tasks_table db)\<rparr>) (Some n) = Inr ts
               \<and> js_index ts 0 = Some r"
proof -
  from assms obtain t where t: "t \<in> set (tasks_table db)" "task_id t = n" by blast
  let ?f = "\<lambda>t. if task_id t = n then foldl assign t us else t"
  from t have "?f t \<in> set (map ?f (tasks_table db))" by simp
  moreover from t have "task_id (?f t) = n" by (simp add: task_id_foldl_assign)
  ultimately have "\<exists>r \<in> set (map ?f (tasks_table db)). task_id r = n" by blast
  from js_index_filter_0 [OF this] show ?thesis
    by (simp add: run_find_def)
qed

lemma update_task_owned:
  assumes owned: "\<exists>t \<in> set (tasks_table db). task_id t = n \<and> task_user_id t = uid user"
  shows "update_task fault now user (Some n) b db p =
     (if fault = Some 0 then (internal_error ''Failed to update task'', db, p)
      else if fault = Some 1 then (internal_error ''Failed to update task'', db, getConnection p)
      else
        (case patch_updates now b of
           Inl TypeError \<Rightarrow> (internal_error ''Failed to update task'', db, getConnection p)
         | Inl (Invalid msg) \<Rightarrow> (bad_request msg, db, release (getConnection p))
         | Inr updates \<Rightarrow>
             if fault = Some 2 then (internal_error ''Failed to update task'', db, getConnection p)
             else if fault = Some 3 then
               (internal_error ''Failed to update task'',
                db\<lparr>tasks_table := map (\<lambda>t. if task_id t = n then foldl assign t updates else t)
                                       (tasks_table db)\<rparr>,
                getConnection p)
             else
               ((200, EmptyBody),
                db\<lparr>tasks_table := map (\<lambda>t. if task_id t = n then foldl assign t updates else t)
                                       (tasks_table db)\<rparr>,
                release (getConnection p))))"
proof -
  from find_owned_first [OF owned] obtain ts r
    where sel: "run_find_owned db (Some n) (uid user) = Inr ts" "js_index ts 0 = Some r"
    by blast
  from owned have ex: "\<exists>t \<in> set (tasks_table db). task_id t = n" by blast
  have reread: "\<exists>ts r. run_find (db\<lparr>tasks_table := map (\<lambda>t. if task_id t = n then foldl assign t us else t)
                                               (tasks_table db)\<rparr>) (Some n) = Inr ts
               \<and> js_index ts 0 = Some r" for us
    by (rule read_back_first [OF ex])
  show ?thesis
  proof (cases "patch_updates now b")
    case (Inl e)
    then show ?thesis
      by (cases e) (simp_all add: update_task_def Let_def sel)
  next
    case (Inr us)
    from reread [of us] obtain ts' r'
      where "run_find (db\<lparr>tasks_table := map (\<lambda>t. if task_id t = n then foldl assign t us else t)
                                               (tasks_table db)\<rparr>) (Some n) = Inr ts'"
        and "js_index ts' 0 = Some r'"
      by blast
    with Inr show ?thesis
      by (simp add: update_task_def Let_def sel run_update_def)
  qed
qed

text \<open>
  C7. Let \<open>taskId\<close> be what \<^verbatim>\<open>parseInt\<close> gave for the path parameter. For every PATCH
  /tasks/:taskId on a task owned by the requester: a request that supplies none of
  title, description and status yields 400 with message "No fields to update provided"
  and leaves the table as it was; whenever the update succeeds (status 200), the new
  table is the old one where exactly the rows with that id have the supplied fields
  replaced, every field that was not supplied kept, and \<open>updated_at\<close> set to the current
  time; and the update does succeed for every request that supplies at least one field,
  a non-empty title if any, and a status of the enumeration if any.
\<close>

theorem patch_writes_only_supplied_fields:
  assumes owned: "\<exists>t \<in> set (tasks_table db). Some (task_id t) = taskId \<and> task_user_id t = uid user"
  shows
    "(fault \<noteq> Some 0 \<and> fault \<noteq> Some 1
        \<and> b_title b = None \<and> b_description b = None \<and> b_status b = None \<longrightarrow>
        update_task fault now user taskId b db p
          = ((400, ErrorBody 400 ''Bad Request'' ''No fields to update provided''),
             db, release (getConnection p)))
     \<and> (\<forall>body. fst (update_task fault now user taskId b db p) = (200, body) \<longrightarrow>
          tasks_table (fst (snd (update_task fault now user taskId b db p)))
            = map (\<lambda>t. if Some (task_id t) = taskId
                        then t\<lparr>task_title := (case b_title b of Some (JStr s) \<Rightarrow> s | _ \<Rightarrow> task_title t),
                               task_description := (case b_description b of
                                                      None \<Rightarrow> task_description t
                                                    | Some JNull \<Rightarrow> None
                                                    | Some (JStr s) \<Rightarrow> Some s),
                               task_status := (case b_status b of Some (JStr s) \<Rightarrow> s | _ \<Rightarrow> task_status t),
                               task_updated_at := now\<rparr>
                        else t)
                  (tasks_table db))
     \<and> (fault = None
          \<and> b_title b \<noteq> Some JNull \<and> b_title b \<noteq> Some (JStr [])
          \<and> (\<forall>v. b_status b = Some v \<longrightarrow> (\<exists>s. v = JStr s \<and> s \<in> set statuses))
          \<and> (b_title b \<noteq> None \<or> b_description b \<noteq> None \<or> b_status b \<noteq> None) \<longrightarrow>
          (\<exists>body. fst (update_task fault now user taskId b db p) = (200, body)))"
proof -
  from owned obtain n where n: "taskId = Some n"
    and own: "\<exists>t \<in> set (tasks_table db). task_id t = n \<and> task_user_id t = uid user"
    by (cases taskId) auto
  note step = update_task_owned [OF own, of fault now b p]
  have empty: "update_task fault now user taskId b db p
          = ((400, ErrorBody 400 ''Bad Request'' ''No fields to update provided''),
             db, release (getConnection p))"
    if "fault \<noteq> Some 0 \<and> fault \<noteq> Some 1
        \<and> b_title b = None \<and> b_description b = None \<and> b_status b = None"
    using that by (simp add: n step patch_updates_empty bad_request_def)
  have written: "tasks_table (fst (snd (update_task fault now user taskId b db p)))
            = map (\<lambda>t. if Some (task_id t) = taskId
                        then t\<lparr>task_title := (case b_title b of Some (JStr s) \<Rightarrow> s | _ \<Rightarrow> task_title t),
                               task_description := (case b_description b of
                                                      None \<Rightarrow> task_description t
                                                    | Some JNull \<Rightarrow> None
                                                    | Some (JStr s) \<Rightarrow> Some s),
                               task_status := (case b_status b of Some (JStr s) \<Rightarrow> s | _ \<Rightarrow> task_status t),
                               task_updated_at := now\<rparr>
                        else t)
                  (tasks_table db)"
    if ok: "fst (update_task fault now user taskId b db p) = (200, body)" for body
  proof -
    from ok obtain us where us: "patch_updates now b = Inr us"
      and run: "update_task fault now user (Some n) b db p
          = ((200, EmptyBody),
             db\<lparr>tasks_table := map (\<lambda>t. if task_id t = n then foldl assign t us else t)
                                    (tasks_table db)\<rparr>,
             release (getConnection p))"
      unfolding n step
      by (auto simp: internal_error_def bad_request_def
          split: if_splits sum.splits patch_stop.splits)
    have each: "foldl assign t us
        = t\<lparr>task_title := (case b_title b of Some (JStr s) \<Rightarrow> s | _ \<Rightarrow> task_title t),
            task_description := (case b_description b of
                                   None \<Rightarrow> task_description t
                                 | Some JNull \<Rightarrow> None
                                 | Some (JStr s) \<Rightarrow> Some s),
            task_status := (case b_status b of Some (JStr s) \<Rightarrow> s | _ \<Rightarrow> task_status t),
            task_updated_at := now\<rparr>" for t
      unfolding patch_updates_Inr [OF us] by (rule foldl_assign_patch)
    show ?thesis
      unfolding n by (simp only: run fst_conv snd_conv) (simp add: each)
  qed
  have succeeds: "\<exists>body. fst (update_task fault now user taskId b db p) = (200, body)"
    if v: "fault = None
          \<and> b_title b \<noteq> Some JNull \<and> b_title b \<noteq> Some (JStr [])
          \<and> (\<forall>v. b_status b = Some v \<longrightarrow> (\<exists>s. v = JStr s \<and> s \<in> set statuses))
          \<and> (b_title b \<noteq> None \<or> b_description b \<noteq> None \<or> b_status b \<noteq> None)"
  proof -
    from v patch_updates_valid [of b now] obtain us where "patch_updates now b = Inr us"
      by blast
    with v show ?thesis by (simp add: n update_task_owned [OF own])
  qed
  from empty written succeeds show ?thesis by blast
qed

theorem patch_writes_only_supplied_fields_witness:
  "js_parseInt (Some ''2'') = Some 2
   \<and> task_b \<in> set (tasks_table sample_db) \<and> task_id task_b = 2
   \<and> task_user_id task_b = uid user_one
   \<and> patch_request None ''2024-02-01 08:00:00'' user_one ''2'' empty_body sample_db idle_pool
       = ((400, ErrorBody 400 ''Bad Request'' ''No fields to update provided''),
          sample_db, release (getConnection idle_pool))
   \<and> fst (patch_request None ''2024-02-01 08:00:00'' user_one ''2'' description_only sample_db idle_pool)
       = (200, EmptyBody)
   \<and> tasks_table (fst (snd (patch_request None ''2024-02-01 08:00:00'' user_one ''2''
                                description_only sample_db idle_pool)))
       = [task_a,
          task_b\<lparr>task_description := Some ''rewritten'', task_updated_at := ''2024-02-01 08:00:00''\<rparr>,
          task_c]"
proof -
  have p2: "js_parseInt (Some ''2'') = Some 2" by code_simp
  have b: "task_b \<in> set (tasks_table sample_db) \<and> task_id task_b = 2
      \<and> task_user_id task_b = uid user_one"
    by (simp add: sample_db_def task_b_def user_one_def)
  then have owned: "\<exists>t \<in> set (tasks_table sample_db).
      Some (task_id t) = Some 2 \<and> task_user_id t = uid user_one"
    by blast
  have ok: "fst (update_task None ''2024-02-01 08:00:00'' user_one (Some 2) description_only sample_db idle_pool)
       = (200, EmptyBody)"
    by code_simp
  from patch_writes_only_supplied_fields [OF owned, of None empty_body "''2024-02-01 08:00:00''" idle_pool]
  have c1: "update_task None ''2024-02-01 08:00:00'' user_one (Some 2) empty_body sample_db idle_pool
       = ((400, ErrorBody 400 ''Bad Request'' ''No fields to update provided''),
          sample_db, release (getConnection idle_pool))"
    by (simp add: empty_body_def)
  from patch_writes_only_supplied_fields [OF owned, of None description_only "''2024-02-01 08:00:00''" idle_pool] ok
  have "tasks_table (fst (snd (update_task None ''2024-02-01 08:00:00'' user_one (Some 2)
                                description_only sample_db idle_pool)))
       = map (\<lambda>t. if Some (task_id t) = Some 2
                        then t\<lparr>task_title := (case b_title description_only of Some (JStr s) \<Rightarrow> s | _ \<Rightarrow> task_title t),
                               task_description := (case b_description description_only of
                                                      None \<Rightarrow> task_description t
                                                    | Some JNull \<Rightarrow> None
                                                    | Some (JStr s) \<Rightarrow> Some s),
                               task_status := (case b_status description_only of Some (JStr s) \<Rightarrow> s | _ \<Rightarrow> task_status t),
                               task_updated_at := ''2024-02-01 08:00:00''\<rparr>
                        else t)
                  (tasks_table sample_db)"
    by blast
  also have "\<dots> = [task_a,
          task_b\<lparr>task_description := Some ''rewritten'', task_updated_at := ''2024-02-01 08:00:00''\<rparr>,
          task_c]"
    by (simp add: sample_db_def description_only_def task_a_def task_b_def task_c_def)
  finally have c2: "tasks_table (fst (snd (update_task None ''2024-02-01 08:00:00'' user_one (Some 2)
                                description_only sample_db idle_pool)))
       = [task_a,
          task_b\<lparr>task_description := Some ''rewritten'', task_updated_at := ''2024-02-01 08:00:00''\<rparr>,
          task_c]" .
  from b c1 ok c2 p2 show ?thesis by (simp add: patch_request_def)
qed

section \<open>Create\<close>

text \<open>
  C8, as amended. For every POST /tasks request: a missing, null or empty title yields 400
  and no row is inserted; a non-empty status outside the enumeration yields 400 and no row
  is inserted; a request with a non-empty title and a status that is missing, null or
  empty creates one row with status "pending", the description null when it is omitted
  (or null or empty), \<open>created_at\<close> equal to \<open>updated_at\<close>, the requester as owner, and
  the 201 response holds the submitted values and the identifier the store assigned.
\<close>

theorem create_task_outcomes:
  "(\<not> truthy (b_title b) \<longrightarrow>
      create_task fault now user b db p
        = ((400, ErrorBody 400 ''Bad Request''
                   ''Title is required and must be at least 1 character long''), db, p))
   \<and> (\<forall>t s. b_title b = Some (JStr t) \<and> t \<noteq> [] \<and> b_status b = Some (JStr s) \<and> s \<noteq> []
             \<and> s \<notin> set statuses \<longrightarrow>
        create_task fault now user b db p
          = ((400, ErrorBody 400 ''Bad Request''
                     ''Status must be pending, in_progress, or completed''), db, p))
   \<and> (\<forall>t. b_title b = Some (JStr t) \<and> t \<noteq> [] \<and> \<not> truthy (b_status b) \<and> fault = None \<longrightarrow>
        create_task fault now user b db p
          = ((201, CreatedBody (Some (int (Suc (auto_increment db)))) t
                     (case b_description b of
                        Some (JStr d) \<Rightarrow> if d = [] then None else Some d
                      | _ \<Rightarrow> None)
                     ''pending''),
             db\<lparr>tasks_table := tasks_table db @
                   [\<lparr>task_id = int (Suc (auto_increment db)), task_title = t,
                     task_description = (case b_description b of
                                           Some (JStr d) \<Rightarrow> if d = [] then None else Some d
                                         | _ \<Rightarrow> None),
                     task_status = ''pending'', task_user_id = uid user,
                     task_created_at = now, task_updated_at = now\<rparr>],
                auto_increment := Suc (auto_increment db)\<rparr>,
             release (getConnection p)))"
proof (intro conjI allI impI)
  assume "\<not> truthy (b_title b)"
  then show "create_task fault now user b db p
        = ((400, ErrorBody 400 ''Bad Request''
                   ''Title is required and must be at least 1 character long''), db, p)"
    by (simp add: create_task_def bad_request_def)
next
  fix t s
  assume "b_title b = Some (JStr t) \<and> t \<noteq> [] \<and> b_status b = Some (JStr s) \<and> s \<noteq> []
             \<and> s \<notin> set statuses"
  then show "create_task fault now user b db p
          = ((400, ErrorBody 400 ''Bad Request''
                     ''Status must be pending, in_progress, or completed''), db, p)"
    by (simp add: create_task_def bad_request_def truthy_def)
next
  fix t
  assume a: "b_title b = Some (JStr t) \<and> t \<noteq> [] \<and> \<not> truthy (b_status b) \<and> fault = None"
  then have st: "(case b_status b of Some (JStr s) \<Rightarrow> if s = [] then ''pending'' else s
                                    | _ \<Rightarrow> ''pending'') = ''pending''"
    by (auto simp: truthy_def split: option.splits jsval.splits)
  from a show "create_task fault now user b db p
          = ((201, CreatedBody (Some (int (Suc (auto_increment db)))) t
                     (case b_description b of
                        Some (JStr d) \<Rightarrow> if d = [] then None else Some d
                      | _ \<Rightarrow> None)
                     ''pending''),
             db\<lparr>tasks_table := tasks_table db @
                   [\<lparr>task_id = int (Suc (auto_increment db)), task_title = t,
                     task_description = (case b_description b of
                                           Some (JStr d) \<Rightarrow> if d = [] then None else Some d
                                         | _ \<Rightarrow> None),
                     task_status = ''pending'', task_user_id = uid user,
                     task_created_at = now, task_updated_at = now\<rparr>],
                auto_increment := Suc (auto_increment db)\<rparr>,
             release (getConnection p))"
    by (simp add: create_task_def truthy_def run_insert_def Let_def st)
qed

theorem create_task_outcomes_witness:
  "create_task None ''2024-02-01 08:00:00'' user_one empty_body sample_db idle_pool
     = ((400, ErrorBody 400 ''Bad Request''
                ''Title is required and must be at least 1 character long''), sample_db, idle_pool)
   \<and> create_task None ''2024-02-01 08:00:00'' user_one bogus_status sample_db idle_pool
     = ((400, ErrorBody 400 ''Bad Request''
                ''Status must be pending, in_progress, or completed''), sample_db, idle_pool)
   \<and> create_task None ''2024-02-01 08:00:00'' user_one title_only sample_db idle_pool
     = ((201, CreatedBody (Some 4) ''X'' None ''pending''),
        \<lparr>tasks_table = [task_a, task_b, task_c,
            \<lparr>task_id = 4, task_title = ''X'', task_description = None,
              task_status = ''pending'', task_user_id = 1,
              task_created_at = ''2024-02-01 08:00:00'',
              task_updated_at = ''2024-02-01 08:00:00''\<rparr>],
          auto_increment = 4\<rparr>,
        idle_pool)"
proof -
  have t0: "\<not> truthy (b_title empty_body)" by (simp add: empty_body_def truthy_def)
  have b1: "b_title bogus_status = Some (JStr ''X'') \<and> ''X'' \<noteq> []
      \<and> b_status bogus_status = Some (JStr ''bogus'') \<and> ''bogus'' \<noteq> []
      \<and> ''bogus'' \<notin> set statuses"
    by (simp add: bogus_status_def statuses_def)
  have t1: "b_title title_only = Some (JStr ''X'') \<and> ''X'' \<noteq> []
      \<and> \<not> truthy (b_status title_only) \<and> (None :: nat option) = None"
    by (simp add: title_only_def truthy_def)
  from create_task_outcomes [of empty_body None "''2024-02-01 08:00:00''" user_one sample_db idle_pool] t0
  have c1: "create_task None ''2024-02-01 08:00:00'' user_one empty_body sample_db idle_pool
     = ((400, ErrorBody 400 ''Bad Request''
                ''Title is required and must be at least 1 character long''), sample_db, idle_pool)"
    by blast
  from create_task_outcomes [of bogus_status None "''2024-02-01 08:00:00''" user_one sample_db idle_pool] b1
  have c2: "create_task None ''2024-02-01 08:00:00'' user_one bogus_status sample_db idle_pool
     = ((400, ErrorBody 400 ''Bad Request''
                ''Status must be pending, in_progress, or completed''), sample_db, idle_pool)"
    by blast
  from create_task_outcomes [of title_only None "''2024-02-01 08:00:00''" user_one sample_db idle_pool] t1
  have "create_task None ''2024-02-01 08:00:00'' user_one title_only sample_db idle_pool
          = ((201, CreatedBody (Some (int (Suc (auto_increment sample_db)))) ''X''
                     (case b_description title_only of
                        Some (JStr d) \<Rightarrow> if d = [] then None else Some d
                      | _ \<Rightarrow> None)
                     ''pending''),
             sample_db\<lparr>tasks_table := tasks_table sample_db @
                   [\<lparr>task_id = int (Suc (auto_increment sample_db)), task_title = ''X'',
                     task_description = (case b_description title_only of
                                           Some (JStr d) \<Rightarrow> if d = [] then None else Some d
                                         | _ \<Rightarrow> None),
                     task_status = ''pending'', task_user_id = uid user_one,
                     task_created_at = ''2024-02-01 08:00:00'', task_updated_at = ''2024-02-01 08:00:00''\<rparr>],
                auto_increment := Suc (auto_increment sample_db)\<rparr>,
             release (getConnection idle_pool))"
    by blast
  then have c3: "create_task None ''2024-02-01 08:00:00'' user_one title_only sample_db idle_pool
     = ((201, CreatedBody (Some 4) ''X'' None ''pending''),
        \<lparr>tasks_table = [task_a, task_b, task_c,
            \<lparr>task_id = 4, task_title = ''X'', task_description = None,
              task_status = ''pending'', task_user_id = 1,
              task_created_at = ''2024-02-01 08:00:00'',
              task_updated_at = ''2024-02-01 08:00:00''\<rparr>],
          auto_increment = 4\<rparr>,
        idle_pool)"
    by (simp add: sample_db_def title_only_def user_one_def idle_pool_def release_def getConnection_def)
  from c1 c2 c3 show ?thesis by blast
qed

text \<open>
  C8 as stated asks for 400 on every status outside the enumeration. The empty string is
  outside it, and a request that supplies it is answered 201 with status "pending".
\<close>

theorem create_blank_status_counterexample:
  "b_status blank_status = Some (JStr [])
   \<and> [] \<notin> set statuses
   \<and> fst (create_task None ''2024-02-01 08:00:00'' user_one blank_status sample_db idle_pool)
       = (201, CreatedBody (Some 4) ''X'' None ''pending'')"
  by code_simp

section \<open>Listing: where the handler departs from the description\<close>

lemma parse_or_default:
  "js_parseInt x = None \<or> js_parseInt x = Some 0 \<Longrightarrow> parse_or x d = d"
  by (auto simp: parse_or_def)

lemma parse_or_nonzero:
  "js_parseInt x = Some n \<Longrightarrow> n \<noteq> 0 \<Longrightarrow> parse_or x d = n"
  by (simp add: parse_or_def)

lemma list_window_offset:
  "list_window q = (page, limit, offset) \<Longrightarrow> offset = (page - 1) * limit"
  by (auto simp: list_window_def Let_def)

lemma order_clause_absent: "order_clause None = Some (''created_at'', True)"
  by (simp add: order_clause_def truthy_str_def)

lemma clauses_agree_on_valid_status:
  "s \<in> set statuses \<Longrightarrow> status_clause (Some s) = Some s \<and> count_clause (Some s) = Some s"
  by (auto simp: status_clause_def count_clause_def truthy_str_def statuses_def)

text \<open>
  C4. The claim: a status outside the enumeration is applied to neither statement, and
  the request has the tasks and the total of the request without a status. The handler:
  the row statement checks the status against the enumeration, the count statement binds
  every non-empty status. For \<^verbatim>\<open>status=bogus\<close> the row statement has no status condition
  and selects the two tasks of the user, the count statement has the condition
  \<^verbatim>\<open>status = 'bogus'\<close> and the total the handler computes from it is 0, where the request
  without a status computes 2.
\<close>

theorem bogus_status_filters_the_count:
  "sel_status (row_query user_one bogus_status_params) = None
   \<and> cnt_status (total_query user_one bogus_status_params) = Some ''bogus''
   \<and> sel_status (row_query user_one no_params) = None
   \<and> cnt_status (total_query user_one no_params) = None
   \<and> run_select sample_db (row_query user_one bogus_status_params) = Inr [task_b, task_a]
   \<and> unwrap_total (run_count sample_db (total_query user_one bogus_status_params)) = 0
   \<and> unwrap_total (run_count sample_db (total_query user_one no_params)) = 2"
  by code_simp

text \<open>
  C5. The claim: a sort field outside the allow-list falls back to \<^verbatim>\<open>created_at\<close>
  descending, the ordering of a request without a sort parameter. The handler: the
  default is added only when the parameter is absent; with \<^verbatim>\<open>sort=unknownfield:asc\<close>
  the row statement has no \<^verbatim>\<open>ORDER BY\<close> at all, where the request without a sort
  parameter has \<^verbatim>\<open>ORDER BY created_at DESC\<close>.
\<close>

theorem unknown_sort_field_drops_the_order:
  "q_sort unknown_sort_params = Some ''unknownfield:asc''
   \<and> sel_order (row_query user_one unknown_sort_params) = None
   \<and> q_sort no_params = None
   \<and> sel_order (row_query user_one no_params) = Some (''created_at'', True)"
  by code_simp

text \<open>
  C6. The claim: a negative page behaves as page 1 and never causes rejection. The
  handler: \<^verbatim>\<open>parseInt("-5") || 1\<close> is \<open>-5\<close> and the offset is \<open>-60\<close>; the store rejects
  the row statement with that offset and the \<^verbatim>\<open>catch\<close> block answers while the
  connection is still in use, where for \<^verbatim>\<open>page=1\<close> the offset is 0, the store accepts
  the statement and the connection is given back.
\<close>

theorem negative_page_is_kept:
  "list_window negative_page_params = (- 5, 10, - 60)
   \<and> list_window page_one_params = (1, 10, 0)
   \<and> run_select sample_db (row_query user_one negative_page_params) = Inl DbError
   \<and> run_select sample_db (row_query user_one page_one_params) = Inr [task_b, task_a]
   \<and> get_tasks None user_one negative_page_params sample_db idle_pool
     = ((500, ErrorBody 500 ''Internal Server Error'' ''Failed to fetch tasks''), sample_db, \<lparr>in_use = 1\<rparr>)
   \<and> get_tasks None user_one page_one_params sample_db idle_pool
     = ((500, ErrorBody 500 ''Internal Server Error'' ''Failed to fetch tasks''), sample_db, \<lparr>in_use = 0\<rparr>)"
  by code_simp

section \<open>Connections\<close>

text \<open>
  C9. The claim: the connection is released on every exit path, also when a call on the
  store throws midway. The handler: the \<^verbatim>\<open>catch\<close> block answers 500 and does not
  release. When the count statement of GET /tasks is rejected, the pool that was idle
  is left with one connection in use; the run without a fault gives it back.
\<close>

theorem faulting_query_leaks_connection:
  "get_tasks (Some 1) user_one no_params sample_db idle_pool
     = ((500, ErrorBody 500 ''Internal Server Error'' ''Failed to fetch tasks''), sample_db, \<lparr>in_use = 1\<rparr>)
   \<and> in_use idle_pool = 0
   \<and> snd (snd (get_tasks None user_one no_params sample_db idle_pool)) = \<lparr>in_use = 0\<rparr>"
  by code_simp

end
